theory Spec2Isabelle
  imports Complex_Main "HOL-Library.Word"
begin

section \<open>The wallet session guard of the SignAndConnect component\<close>

text \<open>
  The repository has two variants of the React component \<open>SignAndConnect\<close>: the
  credential-verified one (a backend token kept in \<open>sessionStorage\<close>) and the simplified
  one (a flag per address kept in \<open>localStorage\<close>). Both are embedded here: every
  effect body and every handler is a function from the component's state to its new
  state and the list of calls it makes to its collaborators (wallet provider, backend,
  modal).

  A handler is the request it makes followed at once by the answer: what the wallet and
  the backend answer is an argument of the function. The commit of a render, in which
  the effects only start their requests and every effect reads the values of that
  render, is \<open>commit\<close> below; there the answer of the me endpoint arrives later, by
  \<open>verifySession_answer\<close>.
\<close>

subsection \<open>Values\<close>

type_synonym byte = "8 word"

text \<open>A JavaScript value of type \<open>string | null | undefined\<close> is a \<open>string option\<close>;
  it is truthy when it is present and not the empty string.\<close>

fun truthy :: "string option \<Rightarrow> bool" where
  "truthy None = False"
| "truthy (Some s) = (s \<noteq> [])"

text \<open>\<open>toLowerCase\<close> on the characters of \<open>string\<close> (bytes): the letters A to Z are
  mapped to a to z, every other character is kept.\<close>

definition lower_char :: "char \<Rightarrow> char" where
  "lower_char c =
     (if 65 \<le> (of_char c :: nat) \<and> (of_char c :: nat) \<le> 90
      then char_of ((of_char c :: nat) + 32) else c)"

definition toLowerCase :: "string \<Rightarrow> string" where
  "toLowerCase s = map lower_char s"

record user_record =
  walletAddress :: string
  createdAt :: string
  lastLoginAt :: string
  isNewUser :: "bool option"

text \<open>The wallet provider object; \<open>disconnect\<close> is an optional method of it.\<close>

datatype provider = Provider (has_disconnect: bool)

record verify_body =
  body_walletAddress :: string
  body_message :: string
  body_signature :: string

text \<open>The calls a handler makes to its collaborators, in the order it makes them.\<close>

datatype call =
    GetMe string
  | SignMessage "byte list"
  | PostVerify verify_body
  | ProviderDisconnect
  | AppKitDisconnect
  | OpenModal
  | Alert string
  | GetBalance string

subsection \<open>Answers of the collaborators\<close>

text \<open>
  \<open>GET /api/auth/me\<close>: the fetch is rejected, or it gives a response with its \<open>ok\<close>
  flag and a body. Reading the body throws when it is no JSON or has no
  \<open>user.walletAddress\<close> (\<open>Unreadable\<close>).
\<close>

datatype me_body = Unreadable | MeData user_record

datatype me_reply = MeRejected | MeResponse bool me_body

text \<open>
  \<open>provider.signMessage\<close>: it throws (the user rejects the request), or it returns a
  value, which may be \<open>null\<close> or \<open>undefined\<close> (\<open>None\<close>).
\<close>

datatype sign_reply = SignThrows | SignReturns "byte list option"

text \<open>
  \<open>POST /api/auth/verify\<close>: the fetch is rejected, the body is no JSON, or it is an
  object \<open>{success, message?, user?, token?}\<close>. \<open>success\<close> is the truthiness of
  the field. A user that is absent or \<open>null\<close> is \<open>None\<close>: reading a field of either
  throws. The token is absent, \<open>null\<close> or a text.
\<close>

datatype token_field = Absent | Null | Text string

record verify_data =
  success :: bool
  message :: "string option"
  data_user :: "user_record option"
  token :: token_field

datatype verify_reply = VerifyRejected | VerifyNoJson | VerifyData verify_data

text \<open>One run of the signing protocol: the value of \<open>new Date().toISOString()\<close> and
  the two answers.\<close>

record sign_io =
  now :: string
  signed :: sign_reply
  verified :: verify_reply

text \<open>\<open>connection.getBalance\<close>, in lamports; \<open>new PublicKey(address)\<close> or the request
  may throw.\<close>

datatype balance_reply = BalanceThrows | BalanceOk nat

subsection \<open>State of the component\<close>

text \<open>
  The hooks both variants share: the account of \<open>useAppKitAccount\<close>, the provider of
  \<open>useAppKitProvider\<close>, the \<open>useState\<close> cells and the \<open>useRef\<close> latch. The balance is
  a JavaScript number; here it is the exact quotient.
\<close>

record component =
  address :: "string option"
  isConnected :: bool
  walletProvider :: "provider option"
  isSigned :: bool
  isLoading :: bool
  balance :: "rat option"
  userDisconnectedRef :: bool

text \<open>The credential-verified variant adds the user record, the token and
  \<open>sessionStorage\<close>.\<close>

record guard = component +
  user :: "user_record option"
  authToken :: "string option"
  sessionStorage :: "string \<rightharpoonup> string"

text \<open>The simplified variant adds \<open>localStorage\<close>.\<close>

record simple_guard = component +
  localStorage :: "string \<rightharpoonup> string"

text \<open>What the component renders decides the state of the session guard.\<close>

datatype phase = Disconnected | ConnectedUnauthenticated | Authenticating | Authenticated

definition phase_of :: "'a component_scheme \<Rightarrow> phase" where
  "phase_of s =
     (if \<not> isConnected s then Disconnected
      else if isLoading s then Authenticating
      else if isSigned s then Authenticated
      else ConnectedUnauthenticated)"

definition LAMPORTS_PER_SOL :: nat where
  "LAMPORTS_PER_SOL = 1000000000"

subsection \<open>The challenge message\<close>

definition newline :: char where
  "newline = CHR 0x0A"

definition challenge :: "string \<Rightarrow> string \<Rightarrow> string" where
  "challenge a stamp =
     ''Sign this message to authenticate with Solana Wallet Connect.'' @ [newline, newline]
     @ ''Wallet: '' @ a @ [newline] @ ''Timestamp: '' @ stamp"

subsection \<open>The credential-verified variant\<close>

text \<open>State of the component when it mounts: \<open>authToken\<close> is read from
  \<open>sessionStorage\<close>.\<close>

definition mount :: "(string \<rightharpoonup> string) \<Rightarrow> string option \<Rightarrow> bool \<Rightarrow> provider option \<Rightarrow> guard" where
  "mount store a c p =
     \<lparr>address = a, isConnected = c, walletProvider = p, isSigned = False,
      isLoading = False, balance = None, userDisconnectedRef = False,
      user = None, authToken = store ''authToken'', sessionStorage = store\<rparr>"

text \<open>The three ways \<open>verifySession\<close> ends once it has sent the request.\<close>

definition adopt_session :: "user_record \<Rightarrow> string \<Rightarrow> guard \<Rightarrow> guard" where
  "adopt_session u storedToken s =
     s\<lparr>user := Some u, isSigned := True, authToken := Some storedToken\<rparr>"

definition clear_session :: "guard \<Rightarrow> guard" where
  "clear_session s =
     s\<lparr>sessionStorage := (sessionStorage s)(''authToken'' := None),
       authToken := None, isSigned := False, user := None\<rparr>"

definition catch_session :: "guard \<Rightarrow> guard" where
  "catch_session s =
     s\<lparr>sessionStorage := (sessionStorage s)(''authToken'' := None),
       authToken := None, isSigned := False\<rparr>"

definition verifySession :: "me_reply \<Rightarrow> guard \<Rightarrow> guard \<times> call list" where
  "verifySession r s =
     (case (sessionStorage s ''authToken'', address s) of
        (Some storedToken, Some a) \<Rightarrow>
          if storedToken \<noteq> [] \<and> isConnected s \<and> a \<noteq> [] then
            (case r of
               MeRejected \<Rightarrow> (catch_session s, [GetMe storedToken])
             | MeResponse ok b \<Rightarrow>
                 if ok then
                   (case b of
                      Unreadable \<Rightarrow> (catch_session s, [GetMe storedToken])
                    | MeData u \<Rightarrow>
                        if toLowerCase (walletAddress u) = toLowerCase a
                        then (adopt_session u storedToken s, [GetMe storedToken])
                        else (clear_session s, [GetMe storedToken]))
                 else (clear_session s, [GetMe storedToken]))
          else (s, [])
      | _ \<Rightarrow> (s, []))"

definition verifySession_effect :: "me_reply \<Rightarrow> guard \<Rightarrow> guard \<times> call list" where
  "verifySession_effect r s =
     (if isConnected s \<and> \<not> userDisconnectedRef s then verifySession r s else (s, []))"

text \<open>The effect that checks whether the address changed while connected.\<close>

definition drift_effect :: "guard \<Rightarrow> guard" where
  "drift_effect s =
     (case (address s, user s) of
        (Some a, Some u) \<Rightarrow>
          if isConnected s \<and> a \<noteq> [] \<and> isSigned s then
            (if toLowerCase a \<noteq> toLowerCase (walletAddress u)
             then s\<lparr>sessionStorage := (sessionStorage s)(''authToken'' := None),
                    authToken := None, isSigned := False, user := None, balance := None\<rparr>
             else s)
          else s
      | _ \<Rightarrow> s)"

definition fetchBalance_effect :: "balance_reply \<Rightarrow> 'a component_scheme \<Rightarrow> 'a component_scheme" where
  "fetchBalance_effect r s =
     (if isConnected s \<and> truthy (address s) \<and> isSigned s then
        (case r of
           BalanceOk bal \<Rightarrow> s\<lparr>balance := Some (of_nat bal / of_nat LAMPORTS_PER_SOL)\<rparr>
         | BalanceThrows \<Rightarrow> s\<lparr>balance := None\<rparr>)
      else s\<lparr>balance := None\<rparr>)"

text \<open>The \<open>catch\<close> block of \<open>handleSignMessage\<close>: the provider is asked to
  disconnect when it has the method.\<close>

definition catch_calls :: "provider \<Rightarrow> call list" where
  "catch_calls p = (if has_disconnect p then [ProviderDisconnect] else [])"

text \<open>
  \<open>handleSignMessage\<close>. \<open>enc\<close> is \<open>new TextEncoder().encode\<close> and \<open>b58\<close> is
  \<open>bs58.encode\<close>, both of libraries outside the repository. When the reply is marked
  successful the state is set and the token stored before \<open>data.user.isNewUser\<close> is
  read, which throws when the reply has no user. \<open>setItem\<close> stores its argument as a
  text: \<open>undefined\<close> for a token that is absent and \<open>null\<close> for one that is \<open>null\<close>.
  \<open>setAuthToken\<close> keeps the value itself, which is no token in both cases. The
  \<open>finally\<close> block clears the loading flag on every path.
\<close>

fun stored_text :: "token_field \<Rightarrow> string" where
  "stored_text Absent = ''undefined''"
| "stored_text Null = ''null''"
| "stored_text (Text x) = x"

fun kept_token :: "token_field \<Rightarrow> string option" where
  "kept_token Absent = None"
| "kept_token Null = None"
| "kept_token (Text x) = Some x"

definition accept_reply :: "verify_data \<Rightarrow> guard \<Rightarrow> guard" where
  "accept_reply d s =
     s\<lparr>user := data_user d, authToken := kept_token (token d),
       sessionStorage := (sessionStorage s)(''authToken'' \<mapsto> stored_text (token d)),
       isSigned := True\<rparr>"

definition handleSignMessage ::
  "(string \<Rightarrow> byte list) \<Rightarrow> (byte list \<Rightarrow> string) \<Rightarrow> sign_io \<Rightarrow> guard \<Rightarrow> guard \<times> call list" where
  "handleSignMessage enc b58 io s =
     (case (walletProvider s, address s) of
        (Some p, Some a) \<Rightarrow>
          if a = [] then (s, [])
          else
            (let msg = challenge a (now io);
                 encodedMessage = enc msg
             in case signed io of
                  SignThrows \<Rightarrow>
                    (s\<lparr>isLoading := False\<rparr>, SignMessage encodedMessage # catch_calls p)
                | SignReturns None \<Rightarrow>
                    (s\<lparr>isLoading := False\<rparr>, [SignMessage encodedMessage])
                | SignReturns (Some signatureUint8) \<Rightarrow>
                    (let signature = b58 signatureUint8;
                         post = PostVerify \<lparr>body_walletAddress = a, body_message = msg,
                                           body_signature = signature\<rparr>
                     in case verified io of
                          VerifyRejected \<Rightarrow>
                            (s\<lparr>isLoading := False\<rparr>,
                             [SignMessage encodedMessage, post] @ catch_calls p)
                        | VerifyNoJson \<Rightarrow>
                            (s\<lparr>isLoading := False\<rparr>,
                             [SignMessage encodedMessage, post] @ catch_calls p)
                        | VerifyData d \<Rightarrow>
                            if success d then
                              (case data_user d of
                                 Some u \<Rightarrow>
                                   ((accept_reply d s)\<lparr>isLoading := False\<rparr>,
                                    [SignMessage encodedMessage, post])
                               | None \<Rightarrow>
                                   ((accept_reply d s)\<lparr>isLoading := False\<rparr>,
                                    [SignMessage encodedMessage, post] @ catch_calls p))
                            else
                              (s\<lparr>isLoading := False\<rparr>,
                               [SignMessage encodedMessage, post,
                                Alert ''Signature verification failed''])))
      | _ \<Rightarrow> (s, []))"

text \<open>The effect that starts the signing protocol.\<close>

definition autoSign_effect ::
  "(string \<Rightarrow> byte list) \<Rightarrow> (byte list \<Rightarrow> string) \<Rightarrow> sign_io \<Rightarrow> guard \<Rightarrow> guard \<times> call list" where
  "autoSign_effect enc b58 io s =
     (if isConnected s \<and> \<not> isSigned s \<and> walletProvider s \<noteq> None \<and> truthy (address s)
         \<and> \<not> userDisconnectedRef s \<and> \<not> truthy (authToken s)
      then handleSignMessage enc b58 io s else (s, []))"

text \<open>The effect that runs when the wallet disconnects.\<close>

definition disconnect_effect :: "guard \<Rightarrow> guard" where
  "disconnect_effect s =
     (if \<not> isConnected s \<and> userDisconnectedRef s then
        s\<lparr>sessionStorage := (sessionStorage s)(''authToken'' := None),
          isSigned := False, authToken := None, user := None\<rparr>
      else if \<not> isConnected s \<and> \<not> userDisconnectedRef s then
        s\<lparr>userDisconnectedRef := False\<rparr>
      else s)"

definition handleConnect :: "'a component_scheme \<Rightarrow> 'a component_scheme \<times> call list" where
  "handleConnect s = (s\<lparr>isSigned := False, userDisconnectedRef := False\<rparr>, [OpenModal])"

definition handleDisconnect :: "guard \<Rightarrow> guard \<times> call list" where
  "handleDisconnect s =
     (s\<lparr>sessionStorage := (sessionStorage s)(''authToken'' := None),
        isSigned := False, user := None, authToken := None,
        userDisconnectedRef := True\<rparr>,
      [AppKitDisconnect])"

text \<open>A change of what \<open>useAppKitAccount\<close> and \<open>useAppKitProvider\<close> report: the wallet
  connects, changes its address or disconnects.\<close>

definition accountChanged ::
  "string option \<Rightarrow> bool \<Rightarrow> provider option \<Rightarrow> 'a component_scheme \<Rightarrow> 'a component_scheme" where
  "accountChanged a c p s = s\<lparr>address := a, isConnected := c, walletProvider := p\<rparr>"

subsection \<open>The commit of a render\<close>

text \<open>
  After a render React runs the effects in the order of their declaration: all of them
  after the first render, and later those of which a dependency differs from the render
  before (\<open>handleSignMessage\<close> is made anew exactly when \<open>walletProvider\<close> or
  \<open>address\<close> change). Values are compared here where React compares objects by
  identity.
\<close>

definition account_deps :: "guard \<Rightarrow> bool \<times> string option" where
  "account_deps s = (isConnected s, address s)"

definition drift_deps :: "guard \<Rightarrow> string option \<times> bool \<times> bool \<times> user_record option" where
  "drift_deps s = (address s, isConnected s, isSigned s, user s)"

definition balance_deps :: "guard \<Rightarrow> bool \<times> string option \<times> bool" where
  "balance_deps s = (isConnected s, address s, isSigned s)"

definition sign_deps ::
  "guard \<Rightarrow> bool \<times> provider option \<times> bool \<times> string option \<times> string option" where
  "sign_deps s = (isConnected s, walletProvider s, isSigned s, address s, authToken s)"

definition runs :: "(guard \<Rightarrow> 'd) \<Rightarrow> guard option \<Rightarrow> guard \<Rightarrow> bool" where
  "runs deps prev s = (case prev of None \<Rightarrow> True | Some r \<Rightarrow> deps r \<noteq> deps s)"

text \<open>
  Every effect of a commit reads the state of the render (\<open>r\<close> below); what it sets is
  applied to the state as the effects before it have left it (\<open>s\<close>). The store and the
  latch are read when the effect runs. An effect that awaits an answer only starts its
  request in the commit.

  \<open>verifySession\<close> up to its \<open>await\<close>: the request to the me endpoint.
\<close>

definition verifySession_request :: "guard \<Rightarrow> call list" where
  "verifySession_request s =
     (if isConnected s \<and> \<not> userDisconnectedRef s then
        (case (sessionStorage s ''authToken'', address s) of
           (Some storedToken, Some a) \<Rightarrow>
             if storedToken \<noteq> [] \<and> isConnected s \<and> a \<noteq> [] then [GetMe storedToken] else []
         | _ \<Rightarrow> [])
      else [])"

text \<open>\<open>verifySession\<close> after its \<open>await\<close>: it holds the token and the address it read
  before, and sets the state as it is when the answer arrives.\<close>

definition verifySession_answer :: "me_reply \<Rightarrow> string \<Rightarrow> string \<Rightarrow> guard \<Rightarrow> guard" where
  "verifySession_answer r storedToken a s =
     (case r of
        MeRejected \<Rightarrow> catch_session s
      | MeResponse ok b \<Rightarrow>
          if ok then
            (case b of
               Unreadable \<Rightarrow> catch_session s
             | MeData u \<Rightarrow>
                 if toLowerCase (walletAddress u) = toLowerCase a
                 then adopt_session u storedToken s
                 else clear_session s)
          else clear_session s)"

text \<open>The balance effect: the request when its guard holds in the render, else the
  balance is cleared.\<close>

definition fetchBalance_request :: "guard \<Rightarrow> guard \<Rightarrow> guard \<times> call list" where
  "fetchBalance_request r s =
     (case address r of
        Some a \<Rightarrow>
          if isConnected r \<and> a \<noteq> [] \<and> isSigned r then (s, [GetBalance a])
          else (s\<lparr>balance := None\<rparr>, [])
      | None \<Rightarrow> (s\<lparr>balance := None\<rparr>, []))"

text \<open>\<open>handleSignMessage\<close> up to its first \<open>await\<close>: the loading flag is set and the
  wallet is asked to sign.\<close>

definition handleSignMessage_request ::
  "(string \<Rightarrow> byte list) \<Rightarrow> string \<Rightarrow> guard \<Rightarrow> guard \<Rightarrow> guard \<times> call list" where
  "handleSignMessage_request enc stamp r s =
     (case (walletProvider r, address r) of
        (Some p, Some a) \<Rightarrow>
          if a = [] then (s, [])
          else (s\<lparr>isLoading := True\<rparr>, [SignMessage (enc (challenge a stamp))])
      | _ \<Rightarrow> (s, []))"

definition autoSign_request ::
  "(string \<Rightarrow> byte list) \<Rightarrow> string \<Rightarrow> guard \<Rightarrow> guard \<Rightarrow> guard \<times> call list" where
  "autoSign_request enc stamp r s =
     (if isConnected r \<and> \<not> isSigned r \<and> walletProvider r \<noteq> None \<and> truthy (address r)
         \<and> \<not> userDisconnectedRef s \<and> \<not> truthy (authToken r)
      then handleSignMessage_request enc stamp r s else (s, []))"

definition disconnect_at :: "guard \<Rightarrow> guard \<Rightarrow> guard" where
  "disconnect_at r s =
     (if \<not> isConnected r \<and> userDisconnectedRef s then
        s\<lparr>sessionStorage := (sessionStorage s)(''authToken'' := None),
          isSigned := False, authToken := None, user := None\<rparr>
      else if \<not> isConnected r \<and> \<not> userDisconnectedRef s then
        s\<lparr>userDisconnectedRef := False\<rparr>
      else s)"

text \<open>
  The commit of the render with state \<open>s\<close>, after the render \<open>prev\<close> (\<open>None\<close> for the
  first render). The first effect sets nothing before its answer, so the address check
  runs on the state of the render itself. The result is the state once the setters are
  applied, and the requests started.
\<close>

definition commit ::
  "(string \<Rightarrow> byte list) \<Rightarrow> string \<Rightarrow> guard option \<Rightarrow> guard \<Rightarrow> guard \<times> call list" where
  "commit enc stamp prev s =
     (let c1 = (if runs account_deps prev s then verifySession_request s else []);
          s2 = (if runs drift_deps prev s then drift_effect s else s);
          (s3, c3) = (if runs balance_deps prev s then fetchBalance_request s s2 else (s2, []));
          (s4, c4) = (if runs sign_deps prev s then autoSign_request enc stamp s s3
                      else (s3, []));
          s5 = (if runs account_deps prev s then disconnect_at s s4 else s4)
      in (s5, c1 @ c3 @ c4))"

subsection \<open>Sequences of events\<close>

text \<open>
  An event is a change of the account, a click on one of the two buttons, or one run of
  an effect with the answers it gets. The effects may run in any order and any number of
  times. The address check has \<open>address\<close>, \<open>isConnected\<close>, \<open>isSigned\<close> and \<open>user\<close>
  as its dependencies, so it runs after every event that changes one of them; running
  it after the other events too changes nothing.
\<close>

datatype event =
    AccountChanged "string option" bool "provider option"
  | ConnectClicked
  | DisconnectClicked
  | VerifySessionRan me_reply
  | FetchBalanceRan balance_reply
  | AutoSignRan sign_io
  | DisconnectRan

fun handle ::
  "(string \<Rightarrow> byte list) \<Rightarrow> (byte list \<Rightarrow> string) \<Rightarrow> event \<Rightarrow> guard \<Rightarrow> guard" where
  "handle enc b58 (AccountChanged a c p) s = accountChanged a c p s"
| "handle enc b58 ConnectClicked s = fst (handleConnect s)"
| "handle enc b58 DisconnectClicked s = fst (handleDisconnect s)"
| "handle enc b58 (VerifySessionRan r) s = fst (verifySession_effect r s)"
| "handle enc b58 (FetchBalanceRan r) s = fetchBalance_effect r s"
| "handle enc b58 (AutoSignRan io) s = fst (autoSign_effect enc b58 io s)"
| "handle enc b58 DisconnectRan s = disconnect_effect s"

definition step ::
  "(string \<Rightarrow> byte list) \<Rightarrow> (byte list \<Rightarrow> string) \<Rightarrow> event \<Rightarrow> guard \<Rightarrow> guard" where
  "step enc b58 e s = drift_effect (handle enc b58 e s)"

fun run ::
  "(string \<Rightarrow> byte list) \<Rightarrow> (byte list \<Rightarrow> string) \<Rightarrow> event list \<Rightarrow> guard \<Rightarrow> guard" where
  "run enc b58 [] s = s"
| "run enc b58 (e # es) s = run enc b58 es (step enc b58 e s)"

text \<open>The invariant of the session state as the data model states it.\<close>

definition session_invariant :: "guard \<Rightarrow> bool" where
  "session_invariant s =
     (isSigned s \<longrightarrow>
        authToken s \<noteq> None \<and>
        (case (user s, address s) of
           (Some u, Some a) \<Rightarrow> toLowerCase (walletAddress u) = toLowerCase a
         | _ \<Rightarrow> False))"

text \<open>Its two parts as the code keeps them: the token and the user record are there
  whenever the signed flag is set, and the addresses agree under the guard of the
  address check.\<close>

definition session_present :: "guard \<Rightarrow> bool" where
  "session_present s = (isSigned s \<longrightarrow> authToken s \<noteq> None \<and> user s \<noteq> None)"

text \<open>The token in memory is the one in the store.\<close>

definition token_in_sync :: "guard \<Rightarrow> bool" where
  "token_in_sync s = (authToken s = sessionStorage s ''authToken'')"

definition address_consistent :: "guard \<Rightarrow> bool" where
  "address_consistent s =
     (case (address s, user s) of
        (Some a, Some u) \<Rightarrow>
          isConnected s \<and> a \<noteq> [] \<and> isSigned s \<longrightarrow>
            toLowerCase (walletAddress u) = toLowerCase a
      | _ \<Rightarrow> True)"

text \<open>A reply of the verify endpoint that is marked successful carries a token and a
  user record.\<close>

fun carries_session :: "event \<Rightarrow> bool" where
  "carries_session (AutoSignRan io) =
     (case verified io of
        VerifyData d \<Rightarrow> success d \<longrightarrow> kept_token (token d) \<noteq> None \<and> data_user d \<noteq> None
      | _ \<Rightarrow> True)"
| "carries_session _ = True"


subsection \<open>The simplified variant\<close>

definition signed_key :: "string \<Rightarrow> string" where
  "signed_key a = ''wallet_signed_'' @ a"

definition loadSigned_effect :: "simple_guard \<Rightarrow> simple_guard" where
  "loadSigned_effect s =
     (case address s of
        Some a \<Rightarrow>
          if a \<noteq> [] \<and> localStorage s (signed_key a) = Some ''true''
          then s\<lparr>isSigned := True\<rparr> else s
      | None \<Rightarrow> s)"

definition handleSignMessage_simple ::
  "(string \<Rightarrow> byte list) \<Rightarrow> string \<Rightarrow> sign_reply \<Rightarrow> simple_guard \<Rightarrow> simple_guard \<times> call list" where
  "handleSignMessage_simple enc stamp r s =
     (case (walletProvider s, address s) of
        (Some p, Some a) \<Rightarrow>
          if a = [] then (s, [])
          else
            (let encodedMessage = enc (challenge a stamp)
             in case r of
                  SignThrows \<Rightarrow>
                    (s\<lparr>isLoading := False\<rparr>, SignMessage encodedMessage # catch_calls p)
                | SignReturns None \<Rightarrow>
                    (s\<lparr>isLoading := False\<rparr>, [SignMessage encodedMessage])
                | SignReturns (Some signature) \<Rightarrow>
                    (s\<lparr>isSigned := True,
                       localStorage := (localStorage s)(signed_key a \<mapsto> ''true''),
                       isLoading := False\<rparr>,
                     [SignMessage encodedMessage]))
      | _ \<Rightarrow> (s, []))"

definition autoSign_effect_simple ::
  "(string \<Rightarrow> byte list) \<Rightarrow> string \<Rightarrow> sign_reply \<Rightarrow> simple_guard \<Rightarrow> simple_guard \<times> call list" where
  "autoSign_effect_simple enc stamp r s =
     (case address s of
        Some a \<Rightarrow>
          if isConnected s \<and> \<not> isSigned s \<and> walletProvider s \<noteq> None \<and> a \<noteq> []
             \<and> \<not> userDisconnectedRef s \<and> localStorage s (signed_key a) \<noteq> Some ''true''
          then handleSignMessage_simple enc stamp r s else (s, [])
      | None \<Rightarrow> (s, []))"

definition disconnect_effect_simple :: "simple_guard \<Rightarrow> simple_guard" where
  "disconnect_effect_simple s =
     (if \<not> isConnected s then
        (case address s of
           Some a \<Rightarrow>
             if a \<noteq> []
             then s\<lparr>localStorage := (localStorage s)(signed_key a := None), isSigned := False\<rparr>
             else s\<lparr>isSigned := False\<rparr>
         | None \<Rightarrow> s\<lparr>isSigned := False\<rparr>)
      else s\<lparr>userDisconnectedRef := False\<rparr>)"

definition handleDisconnect_simple :: "simple_guard \<Rightarrow> simple_guard \<times> call list" where
  "handleDisconnect_simple s =
     (case address s of
        Some a \<Rightarrow>
          if a \<noteq> []
          then (s\<lparr>localStorage := (localStorage s)(signed_key a := None),
                  isSigned := False, userDisconnectedRef := True\<rparr>, [AppKitDisconnect])
          else (s\<lparr>isSigned := False, userDisconnectedRef := True\<rparr>, [AppKitDisconnect])
      | None \<Rightarrow> (s\<lparr>isSigned := False, userDisconnectedRef := True\<rparr>, [AppKitDisconnect]))"

definition mount_simple ::
  "(string \<rightharpoonup> string) \<Rightarrow> string option \<Rightarrow> bool \<Rightarrow> provider option \<Rightarrow> simple_guard" where
  "mount_simple store a c p =
     \<lparr>address = a, isConnected = c, walletProvider = p, isSigned = False,
      isLoading = False, balance = None, userDisconnectedRef = False,
      localStorage = store\<rparr>"

subsection \<open>An instance of the library functions\<close>

text \<open>
  \<open>TextEncoder\<close> and \<open>bs58\<close> are arguments of the handlers. Where a handler is
  evaluated on a concrete state the two functions below stand for them: the first gives
  every character its code, which is what UTF-8 does on ASCII text; the second is only
  a placeholder that reads every byte as a character.
\<close>

definition sample_encode :: "string \<Rightarrow> byte list" where
  "sample_encode s = map (\<lambda>c. of_nat (of_char c)) s"

definition sample_bs58 :: "byte list \<Rightarrow> string" where
  "sample_bs58 bs = map (\<lambda>b. char_of (unat b)) bs"

subsection \<open>Concrete states\<close>

text \<open>A user record whose address differs from the connected address \<open>abc1\<close> only in
  the case of a letter, and another one for a different address.\<close>

definition userX :: user_record where
  "userX = \<lparr>walletAddress = ''Abc1'', createdAt = ''2025-01-01T00:00:00.000Z'',
            lastLoginAt = ''2025-01-02T00:00:00.000Z'', isNewUser = Some False\<rparr>"

definition userZ :: user_record where
  "userZ = \<lparr>walletAddress = ''zzz9'', createdAt = ''2025-01-01T00:00:00.000Z'',
            lastLoginAt = ''2025-01-02T00:00:00.000Z'', isNewUser = None\<rparr>"

text \<open>The component mounted with the token \<open>T\<close> in the store, and the wallet connected
  with the address \<open>abc1\<close>.\<close>

definition connected_state :: guard where
  "connected_state =
     accountChanged (Some ''abc1'') True (Some (Provider True))
       (mount [''authToken'' \<mapsto> ''T''] None False None)"

text \<open>The same after the backend has confirmed the token for \<open>userX\<close>.\<close>

definition authenticated_state :: guard where
  "authenticated_state =
     fst (verifySession_effect (MeResponse True (MeData userX)) connected_state)"

text \<open>The same after the provider has disconnected on its own and the wallet has
  connected again with the same address.\<close>

definition reconnected_state :: guard where
  "reconnected_state =
     accountChanged (Some ''abc1'') True (Some (Provider True))
       (accountChanged None False None authenticated_state)"

text \<open>The component mounted with an empty store and the wallet connected: the signing
  protocol is due.\<close>

definition unsigned_state :: guard where
  "unsigned_state = mount Map.empty (Some ''abc1'') True (Some (Provider True))"

definition stamp0 :: string where
  "stamp0 = ''2025-01-01T00:00:00.000Z''"

definition reply_ok :: verify_data where
  "reply_ok = \<lparr>success = True, message = None, data_user = Some userX, token = Text ''T''\<rparr>"



text \<open>The simplified variant after a signature for \<open>abc1\<close>, and then with the wallet
  reported as disconnected while the address is still reported.\<close>

definition signed_simple :: simple_guard where
  "signed_simple =
     fst (handleSignMessage_simple sample_encode stamp0 (SignReturns (Some []))
            (mount_simple Map.empty (Some ''abc1'') True (Some (Provider True))))"

definition dropped_simple :: simple_guard where
  "dropped_simple = accountChanged (Some ''abc1'') False None signed_simple"

section \<open>Properties\<close>

lemmas guard_defs = verifySession_effect_def verifySession_def adopt_session_def
  clear_session_def catch_session_def

lemmas sign_defs = handleSignMessage_def accept_reply_def catch_calls_def Let_def

subsection \<open>The address check\<close>

lemma drift_disconnected: "\<not> isConnected s \<Longrightarrow> drift_effect s = s"
  by (simp add: drift_effect_def split: option.splits)

lemma drift_address_consistent: "address_consistent (drift_effect s)"
  by (auto simp: address_consistent_def drift_effect_def split: option.splits)

lemma drift_session_present: "session_present s \<Longrightarrow> session_present (drift_effect s)"
  by (auto simp: session_present_def drift_effect_def split: option.splits)

text \<open>Running the address check again when nothing changed does nothing.\<close>

lemma drift_idempotent: "drift_effect (drift_effect s) = drift_effect s"
  by (auto simp: drift_effect_def split: option.splits)

subsection \<open>Every handler keeps the token and the user record under the signed flag\<close>

lemma verifySession_session_present:
  "session_present s \<Longrightarrow> session_present (fst (verifySession_effect r s))"
  by (auto simp: session_present_def guard_defs
      split: option.splits me_reply.splits me_body.splits)

lemma autoSign_session_present:
  "session_present s \<Longrightarrow> carries_session (AutoSignRan io) \<Longrightarrow>
   session_present (fst (autoSign_effect enc b58 io s))"
  by (auto simp: session_present_def autoSign_effect_def handleSignMessage_def
      accept_reply_def Let_def
      split: option.splits sign_reply.splits verify_reply.splits)

lemma handle_session_present:
  "session_present s \<Longrightarrow> carries_session e \<Longrightarrow> session_present (handle enc b58 e s)"
proof (cases e)
  case (AccountChanged a c p)
  assume "session_present s"
  then show ?thesis
    by (simp add: AccountChanged session_present_def accountChanged_def)
next
  case ConnectClicked
  then show ?thesis by (simp add: session_present_def handleConnect_def)
next
  case DisconnectClicked
  then show ?thesis by (simp add: session_present_def handleDisconnect_def)
next
  case (VerifySessionRan r)
  assume "session_present s"
  then show ?thesis by (simp add: VerifySessionRan verifySession_session_present)
next
  case (FetchBalanceRan r)
  assume "session_present s"
  then show ?thesis
    by (auto simp: FetchBalanceRan session_present_def fetchBalance_effect_def
        split: balance_reply.splits)
next
  case (AutoSignRan io)
  assume "session_present s" and "carries_session e"
  then show ?thesis by (simp add: AutoSignRan autoSign_session_present)
next
  case DisconnectRan
  assume "session_present s"
  then show ?thesis
    by (auto simp: DisconnectRan session_present_def disconnect_effect_def)
qed

lemma run_session_present:
  "session_present s \<Longrightarrow> list_all carries_session es \<Longrightarrow>
   session_present (run enc b58 es s)"
proof (induction es arbitrary: s)
  case Nil
  then show ?case by simp
next
  case (Cons e es)
  from Cons.prems have "session_present (step enc b58 e s)"
    by (simp add: step_def drift_session_present handle_session_present)
  with Cons show ?case by simp
qed

lemma run_address_consistent:
  "address_consistent s \<Longrightarrow> address_consistent (run enc b58 es s)"
  by (induction es arbitrary: s) (simp_all add: step_def drift_address_consistent)

subsection \<open>The token in memory and the token in the store\<close>

lemma kept_token_Some: "kept_token t = Some y \<longleftrightarrow> t = Text y"
  by (cases t) auto

lemma handle_token_in_sync:
  "token_in_sync s \<Longrightarrow> carries_session e \<Longrightarrow> token_in_sync (handle enc b58 e s)"
proof (cases e)
  case (AccountChanged a c p)
  assume "token_in_sync s"
  then show ?thesis by (simp add: AccountChanged token_in_sync_def accountChanged_def)
next
  case ConnectClicked
  assume "token_in_sync s"
  then show ?thesis by (simp add: ConnectClicked token_in_sync_def handleConnect_def)
next
  case DisconnectClicked
  then show ?thesis by (simp add: token_in_sync_def handleDisconnect_def)
next
  case (VerifySessionRan r)
  assume "token_in_sync s"
  then show ?thesis
    by (auto simp: VerifySessionRan token_in_sync_def guard_defs
        split: option.splits me_reply.splits me_body.splits)
next
  case (FetchBalanceRan r)
  assume "token_in_sync s"
  then show ?thesis
    by (auto simp: FetchBalanceRan token_in_sync_def fetchBalance_effect_def
        split: balance_reply.splits)
next
  case (AutoSignRan io)
  assume "token_in_sync s" and "carries_session e"
  then show ?thesis
    by (auto simp: AutoSignRan token_in_sync_def autoSign_effect_def sign_defs kept_token_Some
        split: option.splits sign_reply.splits verify_reply.splits)
next
  case DisconnectRan
  assume "token_in_sync s"
  then show ?thesis by (auto simp: DisconnectRan token_in_sync_def disconnect_effect_def)
qed

lemma drift_token_in_sync: "token_in_sync s \<Longrightarrow> token_in_sync (drift_effect s)"
  by (auto simp: token_in_sync_def drift_effect_def split: option.splits)

text \<open>In every state the component reaches from its mount, the token in memory is the
  stored one, as long as the replies marked successful carried a token.\<close>

lemma run_token_in_sync:
  "token_in_sync s \<Longrightarrow> list_all carries_session es \<Longrightarrow> token_in_sync (run enc b58 es s)"
proof (induction es arbitrary: s)
  case Nil
  then show ?case by simp
next
  case (Cons e es)
  from Cons.prems have "token_in_sync (step enc b58 e s)"
    by (simp add: step_def drift_token_in_sync handle_token_in_sync)
  with Cons show ?case by simp
qed

lemma mount_token_in_sync: "token_in_sync (mount store a c p)"
  by (simp add: token_in_sync_def mount_def)

subsection \<open>Evaluation of the concrete states\<close>

lemma lower_samples:
  "toLowerCase ''Abc1'' = ''abc1''" "toLowerCase ''abc1'' = ''abc1''"
  "toLowerCase ''zzz9'' = ''zzz9''"
  by code_simp+

lemma connected_state_fields:
  "sessionStorage connected_state ''authToken'' = Some ''T''"
  "authToken connected_state = Some ''T''"
  "isConnected connected_state" "address connected_state = Some ''abc1''"
  "\<not> userDisconnectedRef connected_state" "\<not> isLoading connected_state"
  "\<not> isSigned connected_state" "user connected_state = None"
  "walletProvider connected_state = Some (Provider True)"
  by (simp_all add: connected_state_def accountChanged_def mount_def)

lemma authenticated_state_fields:
  "sessionStorage authenticated_state ''authToken'' = Some ''T''"
  "authToken authenticated_state = Some ''T''"
  "isConnected authenticated_state" "address authenticated_state = Some ''abc1''"
  "\<not> userDisconnectedRef authenticated_state" "\<not> isLoading authenticated_state"
  "isSigned authenticated_state" "user authenticated_state = Some userX"
  "walletProvider authenticated_state = Some (Provider True)"
  by (simp_all add: authenticated_state_def guard_defs connected_state_fields
      lower_samples userX_def)

lemma reconnected_state_fields:
  "sessionStorage reconnected_state ''authToken'' = Some ''T''"
  "authToken reconnected_state = Some ''T''"
  "isConnected reconnected_state" "address reconnected_state = Some ''abc1''"
  "\<not> userDisconnectedRef reconnected_state" "\<not> isLoading reconnected_state"
  "isSigned reconnected_state" "user reconnected_state = Some userX"
  "walletProvider reconnected_state = Some (Provider True)"
  by (simp_all add: reconnected_state_def accountChanged_def authenticated_state_fields)

lemma unsigned_state_fields:
  "sessionStorage unsigned_state = Map.empty" "authToken unsigned_state = None"
  "isConnected unsigned_state" "address unsigned_state = Some ''abc1''"
  "\<not> userDisconnectedRef unsigned_state" "\<not> isLoading unsigned_state"
  "\<not> isSigned unsigned_state" "user unsigned_state = None"
  "walletProvider unsigned_state = Some (Provider True)"
  by (simp_all add: unsigned_state_def mount_def)

lemma dropped_simple_fields:
  "\<not> isConnected dropped_simple" "address dropped_simple = Some ''abc1''"
  "\<not> userDisconnectedRef dropped_simple"
  "localStorage dropped_simple (signed_key ''abc1'') = Some ''true''"
  by (simp_all add: dropped_simple_def signed_simple_def accountChanged_def
      handleSignMessage_simple_def mount_simple_def)

subsection \<open>The session invariant\<close>

text \<open>
  C1, as the code keeps it. After every sequence of events, each followed by the address
  check: if the wallet is connected with an address, the signed flag is set and a user
  record is there, then the record's wallet address equals the connected address up to
  the case of letters; and if every reply of the verify endpoint that was marked
  successful carried a token and a user record, then the token and a user record are
  there whenever the signed flag is set.
\<close>

theorem session_invariant_after_every_transition:
  "address_consistent (run enc b58 es (mount store a c p))
 \<and> (list_all carries_session es \<longrightarrow> session_present (run enc b58 es (mount store a c p)))"
proof -
  have "address_consistent (mount store a c p)"
    by (simp add: address_consistent_def mount_def split: option.splits)
  moreover have "session_present (mount store a c p)"
    by (simp add: session_present_def mount_def)
  ultimately show ?thesis
    by (simp add: run_address_consistent run_session_present)
qed

theorem session_invariant_after_every_transition_witness:
  "list_all carries_session
     [AccountChanged (Some ''abc1'') True (Some (Provider True)),
      AutoSignRan \<lparr>now = stamp0, signed = SignReturns (Some []), verified = VerifyData reply_ok\<rparr>]
 \<and> isConnected (run sample_encode sample_bs58
     [AccountChanged (Some ''abc1'') True (Some (Provider True)),
      AutoSignRan \<lparr>now = stamp0, signed = SignReturns (Some []), verified = VerifyData reply_ok\<rparr>]
     (mount Map.empty None False None))
 \<and> isSigned (run sample_encode sample_bs58
     [AccountChanged (Some ''abc1'') True (Some (Provider True)),
      AutoSignRan \<lparr>now = stamp0, signed = SignReturns (Some []), verified = VerifyData reply_ok\<rparr>]
     (mount Map.empty None False None))
 \<and> address_consistent (run sample_encode sample_bs58
     [AccountChanged (Some ''abc1'') True (Some (Provider True)),
      AutoSignRan \<lparr>now = stamp0, signed = SignReturns (Some []), verified = VerifyData reply_ok\<rparr>]
     (mount Map.empty None False None))
 \<and> session_present (run sample_encode sample_bs58
     [AccountChanged (Some ''abc1'') True (Some (Provider True)),
      AutoSignRan \<lparr>now = stamp0, signed = SignReturns (Some []), verified = VerifyData reply_ok\<rparr>]
     (mount Map.empty None False None))"
proof -
  let ?es = "[AccountChanged (Some ''abc1'') True (Some (Provider True)),
      AutoSignRan \<lparr>now = stamp0, signed = SignReturns (Some []), verified = VerifyData reply_ok\<rparr>]"
  have h: "list_all carries_session ?es"
    by (simp add: reply_ok_def)
  have e: "isConnected (run sample_encode sample_bs58 ?es (mount Map.empty None False None))
     \<and> isSigned (run sample_encode sample_bs58 ?es (mount Map.empty None False None))"
    by (simp add: step_def accountChanged_def mount_def autoSign_effect_def sign_defs
        drift_effect_def reply_ok_def userX_def lower_samples)
  from session_invariant_after_every_transition
         [of sample_encode sample_bs58 ?es Map.empty None False None] h e
  show ?thesis by simp
qed

text \<open>
  C1 as it is stated fails: when the provider disconnects without the user having asked
  for it, the signed flag and the user record stay while no address is connected.
\<close>

theorem session_invariant_counterexample:
  "session_invariant (run sample_encode sample_bs58
     [AccountChanged (Some ''abc1'') True (Some (Provider True)),
      VerifySessionRan (MeResponse True (MeData userX))]
     (mount [''authToken'' \<mapsto> ''T''] None False None))
 \<and> \<not> session_invariant (run sample_encode sample_bs58
     [AccountChanged (Some ''abc1'') True (Some (Provider True)),
      VerifySessionRan (MeResponse True (MeData userX)),
      AccountChanged None False None, DisconnectRan]
     (mount [''authToken'' \<mapsto> ''T''] None False None))"
  by (simp add: session_invariant_def step_def accountChanged_def mount_def guard_defs
      drift_effect_def disconnect_effect_def userX_def lower_samples)

subsection \<open>The fast path\<close>

text \<open>The handler \<open>verifySession_effect\<close> is the request of the commit followed at once
  by its answer.\<close>

lemma verifySession_effect_request: "snd (verifySession_effect r s) = verifySession_request s"
  by (simp add: guard_defs verifySession_request_def
      split: option.splits me_reply.splits me_body.splits)

lemma verifySession_effect_answer:
  assumes "sessionStorage s ''authToken'' = Some t" and "t \<noteq> []"
    and "isConnected s" and "address s = Some a" and "a \<noteq> []"
    and "\<not> userDisconnectedRef s"
  shows "fst (verifySession_effect r s) = verifySession_answer r t a s"
  using assms
  by (simp add: guard_defs verifySession_answer_def split: me_reply.splits me_body.splits)

lemma disconnect_at_render: "disconnect_at s s = disconnect_effect s"
  by (simp add: disconnect_at_def disconnect_effect_def)

text \<open>Likewise the first call of \<open>handleSignMessage\<close> is the request of the commit, and
  the signing effect starts it under the same guard.\<close>

lemma handleSignMessage_request_call:
  "snd (handleSignMessage_request enc (now io) s s) = take 1 (snd (handleSignMessage enc b58 io s))"
  by (simp add: handleSignMessage_request_def sign_defs
      split: option.splits sign_reply.splits verify_reply.splits)

lemma autoSign_request_call:
  "snd (autoSign_request enc (now io) s s) = take 1 (snd (autoSign_effect enc b58 io s))"
  using handleSignMessage_request_call [of enc io s b58]
  by (auto simp: autoSign_request_def autoSign_effect_def)

text \<open>
  C2. A token is stored, in the store and in memory (the component reads the one from
  the other when it mounts, and every handler writes both); the wallet is connected
  with an address, which is the address of the session held before if there is one; the
  latch is clear. This is the first render or the render after the account changed.
  Then the commit starts the request to the me endpoint (and the one for the balance if
  the signed flag is still set) and does not ask the wallet to sign, and the token stays
  in the store and in memory. When the me endpoint then answers with a record for the
  connected address (up to the case of letters), the component is authenticated with
  that record and the token is still in the store and in memory. The commit of any
  later render of that state changes nothing and does not ask the wallet to sign.
\<close>

theorem fast_path_reconnect:
  assumes "sessionStorage s ''authToken'' = Some c" and "c \<noteq> []"
    and "authToken s = Some c"
    and "isConnected s" and "address s = Some a" and "a \<noteq> []"
    and "\<not> userDisconnectedRef s" and "\<not> isLoading s"
    and "address_consistent s"
    and "runs account_deps prev s"
    and "toLowerCase (walletAddress u) = toLowerCase a"
  shows "snd (commit enc stamp prev s) = GetMe c # (if isSigned s then [GetBalance a] else [])
       \<and> sessionStorage (fst (commit enc stamp prev s)) ''authToken'' = Some c
       \<and> authToken (fst (commit enc stamp prev s)) = Some c
       \<and> phase_of (verifySession_answer (MeResponse True (MeData u)) c a
            (fst (commit enc stamp prev s))) = Authenticated
       \<and> user (verifySession_answer (MeResponse True (MeData u)) c a
            (fst (commit enc stamp prev s))) = Some u
       \<and> authToken (verifySession_answer (MeResponse True (MeData u)) c a
            (fst (commit enc stamp prev s))) = Some c
       \<and> sessionStorage (verifySession_answer (MeResponse True (MeData u)) c a
            (fst (commit enc stamp prev s))) ''authToken'' = Some c
       \<and> fst (commit enc stamp' prev' (verifySession_answer (MeResponse True (MeData u)) c a
            (fst (commit enc stamp prev s))))
           = verifySession_answer (MeResponse True (MeData u)) c a
               (fst (commit enc stamp prev s))
       \<and> SignMessage m \<notin> set (snd (commit enc stamp' prev'
            (verifySession_answer (MeResponse True (MeData u)) c a
               (fst (commit enc stamp prev s)))))"
proof -
  define s1 where "s1 = fst (commit enc stamp prev s)"
  define s2 where "s2 = verifySession_answer (MeResponse True (MeData u)) c a s1"
  have r1: "runs balance_deps prev s" and r4: "runs sign_deps prev s"
    using assms(10)
    by (auto simp: runs_def account_deps_def balance_deps_def sign_deps_def split: option.splits)
  have req: "verifySession_request s = [GetMe c]"
    using assms by (simp add: verifySession_request_def)
  have d: "drift_effect s = s"
    using assms
    by (auto simp: drift_effect_def address_consistent_def split: option.splits)
  have bal: "fetchBalance_request s s
      = (if isSigned s then (s, [GetBalance a]) else (s\<lparr>balance := None\<rparr>, []))"
    using assms by (simp add: fetchBalance_request_def)
  have sg: "autoSign_request enc stamp s x = (x, [])" for x
    using assms by (simp add: autoSign_request_def)
  have dc: "disconnect_at s x = x" for x
    using assms by (simp add: disconnect_at_def)
  have com: "commit enc stamp prev s
      = (if isSigned s then s else s\<lparr>balance := None\<rparr>,
         GetMe c # (if isSigned s then [GetBalance a] else []))"
    using assms(10) r1 r4 by (simp add: commit_def req d bal sg dc)
  have p1: "isConnected s1 \<and> isSigned s1 = isSigned s \<and> address s1 = Some a
      \<and> user s1 = user s \<and> authToken s1 = Some c
      \<and> sessionStorage s1 = sessionStorage s \<and> \<not> isLoading s1
      \<and> \<not> userDisconnectedRef s1"
    using assms by (simp add: s1_def com)
  have p2: "isConnected s2 \<and> isSigned s2 \<and> address s2 = Some a \<and> user s2 = Some u
      \<and> authToken s2 = Some c \<and> sessionStorage s2 ''authToken'' = Some c
      \<and> \<not> isLoading s2 \<and> \<not> userDisconnectedRef s2"
    using p1 assms(1,11) by (simp add: s2_def verifySession_answer_def adopt_session_def)
  have d2: "drift_effect s2 = s2"
    using p2 assms(11) by (simp add: drift_effect_def)
  have bal2: "fetchBalance_request s2 s2 = (s2, [GetBalance a])"
    using p2 assms(6) by (simp add: fetchBalance_request_def)
  have sg2: "autoSign_request enc stamp' s2 x = (x, [])" for x
    using p2 by (simp add: autoSign_request_def)
  have dc2: "disconnect_at s2 x = x" for x
    using p2 by (simp add: disconnect_at_def)
  have req2: "verifySession_request s2 = [GetMe c]"
    using p2 assms(2,6) by (simp add: verifySession_request_def)
  have com2: "fst (commit enc stamp' prev' s2) = s2
      \<and> SignMessage m \<notin> set (snd (commit enc stamp' prev' s2))"
    by (simp add: commit_def d2 bal2 sg2 dc2 req2)
  have first: "snd (commit enc stamp prev s) = GetMe c # (if isSigned s then [GetBalance a] else [])"
    by (simp add: com)
  have ph: "phase_of s2 = Authenticated"
    using p2 by (simp add: phase_of_def)
  show ?thesis
    using first p1 p2 ph com2 assms(1) unfolding s2_def s1_def by simp
qed

theorem fast_path_reconnect_witness:
  "runs account_deps (Some (mount [''authToken'' \<mapsto> ''T''] None False None)) connected_state
 \<and> sessionStorage connected_state ''authToken'' = Some ''T'' \<and> ''T'' \<noteq> []
 \<and> authToken connected_state = Some ''T''
 \<and> isConnected connected_state \<and> address connected_state = Some ''abc1'' \<and> ''abc1'' \<noteq> []
 \<and> \<not> userDisconnectedRef connected_state \<and> \<not> isLoading connected_state
 \<and> address_consistent connected_state
 \<and> toLowerCase (walletAddress userX) = toLowerCase ''abc1''
 \<and> phase_of connected_state = ConnectedUnauthenticated
 \<and> snd (commit sample_encode stamp0
      (Some (mount [''authToken'' \<mapsto> ''T''] None False None)) connected_state) = [GetMe ''T'']
 \<and> phase_of (verifySession_answer (MeResponse True (MeData userX)) ''T'' ''abc1''
      (fst (commit sample_encode stamp0
         (Some (mount [''authToken'' \<mapsto> ''T''] None False None)) connected_state)))
     = Authenticated
 \<and> sessionStorage (verifySession_answer (MeResponse True (MeData userX)) ''T'' ''abc1''
      (fst (commit sample_encode stamp0
         (Some (mount [''authToken'' \<mapsto> ''T''] None False None)) connected_state)))
      ''authToken'' = Some ''T''
 \<and> runs account_deps (Some (accountChanged None False None authenticated_state))
      reconnected_state
 \<and> isSigned reconnected_state \<and> isConnected reconnected_state
 \<and> address reconnected_state = Some ''abc1'' \<and> user reconnected_state = Some userX
 \<and> address_consistent reconnected_state
 \<and> snd (commit sample_encode stamp0
      (Some (accountChanged None False None authenticated_state)) reconnected_state)
     = [GetMe ''T'', GetBalance ''abc1'']
 \<and> phase_of (verifySession_answer (MeResponse True (MeData userX)) ''T'' ''abc1''
      (fst (commit sample_encode stamp0
         (Some (accountChanged None False None authenticated_state)) reconnected_state)))
     = Authenticated"
proof -
  let ?m = "mount [''authToken'' \<mapsto> ''T''] None False None"
  let ?d = "accountChanged None False None authenticated_state"
  have n: "''T'' \<noteq> []" "''abc1'' \<noteq> []" by simp_all
  have lo: "toLowerCase (walletAddress userX) = toLowerCase ''abc1''"
    by (simp add: userX_def lower_samples)
  have r1: "runs account_deps (Some ?m) connected_state"
    by (simp add: runs_def account_deps_def connected_state_fields mount_def)
  have c1: "address_consistent connected_state"
    by (simp add: address_consistent_def connected_state_fields)
  have ph: "phase_of connected_state = ConnectedUnauthenticated"
    by (simp add: phase_of_def connected_state_fields)
  have r2: "runs account_deps (Some ?d) reconnected_state"
    by (simp add: runs_def account_deps_def reconnected_state_fields accountChanged_def)
  have c2: "address_consistent reconnected_state"
    by (simp add: address_consistent_def reconnected_state_fields userX_def lower_samples)
  note w1 = fast_path_reconnect
    [OF connected_state_fields(1) n(1) connected_state_fields(2,3,4) n(2)
        connected_state_fields(5,6) c1 r1 lo, of sample_encode stamp0]
  note w2 = fast_path_reconnect
    [OF reconnected_state_fields(1) n(1) reconnected_state_fields(2,3,4) n(2)
        reconnected_state_fields(5,6) c2 r2 lo, of sample_encode stamp0]
  from w1 w2 r1 r2 c1 c2 lo ph show ?thesis
    by (simp add: connected_state_fields reconnected_state_fields)
qed

subsection \<open>Disconnects\<close>

text \<open>
  C3, as the code keeps it. When the provider disconnects and the latch is not set, the
  credential-verified variant leaves the stored token (and the token in memory)
  unchanged: its disconnect effect changes nothing, and neither do the other effects of
  that render, which start no request. The simplified variant does not consult the latch: it leaves its store
  unchanged only when no address is reported any more, and removes the flag of the
  reported address otherwise.
\<close>

theorem incidental_disconnect_keeps_credential:
  "(\<not> userDisconnectedRef s \<longrightarrow>
      disconnect_effect (accountChanged a False p s) = accountChanged a False p s
    \<and> sessionStorage (fst (commit enc stamp prev (accountChanged a False p s))) = sessionStorage s
    \<and> authToken (fst (commit enc stamp prev (accountChanged a False p s))) = authToken s
    \<and> snd (commit enc stamp prev (accountChanged a False p s)) = [])
 \<and> (\<not> isConnected t1 \<and> \<not> truthy (address t1) \<longrightarrow>
      localStorage (disconnect_effect_simple t1) = localStorage t1)
 \<and> (\<not> isConnected t2 \<and> address t2 = Some c \<and> c \<noteq> [] \<longrightarrow>
      localStorage (disconnect_effect_simple t2) = (localStorage t2)(signed_key c := None))"
proof -
  have adv: "disconnect_effect (accountChanged a False p s) = accountChanged a False p s"
    if "\<not> userDisconnectedRef s"
    using that by (simp add: disconnect_effect_def accountChanged_def)
  have com: "sessionStorage (fst (commit enc stamp prev (accountChanged a False p s))) = sessionStorage s
     \<and> authToken (fst (commit enc stamp prev (accountChanged a False p s))) = authToken s
     \<and> snd (commit enc stamp prev (accountChanged a False p s)) = []"
    if "\<not> userDisconnectedRef s"
  proof -
    define r where "r = accountChanged a False p s"
    have f: "\<not> isConnected r" "\<not> userDisconnectedRef r"
      "sessionStorage r = sessionStorage s" "authToken r = authToken s"
      using that by (simp_all add: r_def accountChanged_def)
    have e1: "verifySession_request r = []"
      using f by (simp add: verifySession_request_def)
    have e2: "drift_effect r = r"
      using f by (simp add: drift_disconnected)
    have e3: "fetchBalance_request r r = (r\<lparr>balance := None\<rparr>, [])"
      using f by (simp add: fetchBalance_request_def split: option.splits)
    have e4: "autoSign_request enc stamp r x = (x, [])" for x
      using f by (simp add: autoSign_request_def)
    have e5: "sessionStorage (disconnect_at r x) = sessionStorage x
        \<and> authToken (disconnect_at r x) = authToken x" if "\<not> userDisconnectedRef x" for x
      using f that by (simp add: disconnect_at_def)
    have "sessionStorage (fst (commit enc stamp prev r)) = sessionStorage s
        \<and> authToken (fst (commit enc stamp prev r)) = authToken s
        \<and> snd (commit enc stamp prev r) = []"
      using f by (simp add: commit_def e1 e2 e3 e4 e5)
    then show ?thesis by (simp add: r_def)
  qed
  have simple1: "localStorage (disconnect_effect_simple t1) = localStorage t1"
    if "\<not> isConnected t1" and "\<not> truthy (address t1)"
    using that by (cases "address t1") (simp_all add: disconnect_effect_simple_def)
  have simple2: "localStorage (disconnect_effect_simple t2) = (localStorage t2)(signed_key c := None)"
    if "\<not> isConnected t2" and "address t2 = Some c" and "c \<noteq> []"
    using that by (simp add: disconnect_effect_simple_def)
  from adv com simple1 simple2 show ?thesis by blast
qed

theorem incidental_disconnect_keeps_credential_witness:
  "\<not> userDisconnectedRef authenticated_state
 \<and> sessionStorage (fst (commit sample_encode stamp0 (Some authenticated_state)
      (accountChanged None False None authenticated_state))) ''authToken'' = Some ''T''
 \<and> authToken (fst (commit sample_encode stamp0 (Some authenticated_state)
      (accountChanged None False None authenticated_state))) = Some ''T''
 \<and> \<not> isConnected (accountChanged None False None signed_simple)
 \<and> \<not> truthy (address (accountChanged None False None signed_simple))
 \<and> localStorage (disconnect_effect_simple (accountChanged None False None signed_simple))
      (signed_key ''abc1'') = Some ''true''
 \<and> \<not> isConnected dropped_simple \<and> address dropped_simple = Some ''abc1'' \<and> ''abc1'' \<noteq> []
 \<and> localStorage (disconnect_effect_simple dropped_simple) (signed_key ''abc1'') = None"
proof -
  let ?t1 = "accountChanged None False None signed_simple"
  have h1: "\<not> isConnected ?t1 \<and> \<not> truthy (address ?t1)"
    by (simp add: accountChanged_def)
  have l1: "localStorage ?t1 (signed_key ''abc1'') = Some ''true''"
    by (simp add: signed_simple_def accountChanged_def handleSignMessage_simple_def
        mount_simple_def)
  from incidental_disconnect_keeps_credential
         [of authenticated_state None None sample_encode stamp0 "Some authenticated_state"
            ?t1 dropped_simple "''abc1''"]
    h1 l1
  show ?thesis by (simp add: authenticated_state_fields dropped_simple_fields)
qed

text \<open>
  C3 as it is stated fails for the simplified variant: the wallet is reported as
  disconnected while the address is still reported, the latch is not set, and the flag
  stored for that address is removed.
\<close>

theorem incidental_disconnect_simple_counterexample:
  "\<not> isConnected dropped_simple \<and> \<not> userDisconnectedRef dropped_simple
 \<and> localStorage dropped_simple (signed_key ''abc1'') = Some ''true''
 \<and> localStorage (disconnect_effect_simple dropped_simple) (signed_key ''abc1'') = None"
  by (simp add: dropped_simple_fields disconnect_effect_simple_def)

text \<open>
  C4. In every state the explicit disconnect leaves no token in the store, sets the
  latch, clears the signed flag, the user record and the token in memory, and asks the
  wallet to disconnect. In the simplified variant, whose store holds one flag per
  address, the flag of the connected address is removed, the latch is set, the signed
  flag is cleared and the wallet is asked to disconnect.
\<close>

theorem explicit_disconnect_clears:
  "sessionStorage (fst (handleDisconnect s)) ''authToken'' = None
 \<and> userDisconnectedRef (fst (handleDisconnect s))
 \<and> \<not> isSigned (fst (handleDisconnect s))
 \<and> user (fst (handleDisconnect s)) = None
 \<and> authToken (fst (handleDisconnect s)) = None
 \<and> snd (handleDisconnect s) = [AppKitDisconnect]
 \<and> userDisconnectedRef (fst (handleDisconnect_simple t))
 \<and> \<not> isSigned (fst (handleDisconnect_simple t))
 \<and> snd (handleDisconnect_simple t) = [AppKitDisconnect]
 \<and> (address t = Some a \<and> a \<noteq> [] \<longrightarrow>
       localStorage (fst (handleDisconnect_simple t)) (signed_key a) = None)"
  by (auto simp: handleDisconnect_def handleDisconnect_simple_def split: option.splits)

theorem explicit_disconnect_clears_witness:
  "sessionStorage authenticated_state ''authToken'' = Some ''T''
 \<and> sessionStorage (fst (handleDisconnect authenticated_state)) ''authToken'' = None
 \<and> address signed_simple = Some ''abc1'' \<and> ''abc1'' \<noteq> []
 \<and> localStorage signed_simple (signed_key ''abc1'') = Some ''true''
 \<and> localStorage (fst (handleDisconnect_simple signed_simple)) (signed_key ''abc1'') = None"
proof -
  have h: "address signed_simple = Some ''abc1'' \<and> ''abc1'' \<noteq> []
      \<and> localStorage signed_simple (signed_key ''abc1'') = Some ''true''"
    by (simp add: signed_simple_def handleSignMessage_simple_def mount_simple_def)
  from explicit_disconnect_clears [of authenticated_state signed_simple "''abc1''"] h
  show ?thesis by (simp add: authenticated_state_fields)
qed

subsection \<open>The signing protocol\<close>




text \<open>
  C8. When the user rejects the signature request (\<open>signMessage\<close> throws), the handler
  asks for a signature once and makes no other call except the disconnect of the
  provider, which it calls exactly when the provider has that method; the store, the
  signed flag and every dependency of the signing effect are as before, the loading
  flag is cleared, and a run that started connected and unsigned ends in
  \<open>ConnectedUnauthenticated\<close>. The same holds of the simplified variant.
\<close>

theorem sign_rejected:
  "(walletProvider s = Some p \<and> address s = Some a \<and> a \<noteq> [] \<and> signed io = SignThrows \<longrightarrow>
      sessionStorage (fst (handleSignMessage enc b58 io s)) = sessionStorage s
    \<and> isSigned (fst (handleSignMessage enc b58 io s)) = isSigned s
    \<and> authToken (fst (handleSignMessage enc b58 io s)) = authToken s
    \<and> user (fst (handleSignMessage enc b58 io s)) = user s
    \<and> address (fst (handleSignMessage enc b58 io s)) = address s
    \<and> isConnected (fst (handleSignMessage enc b58 io s)) = isConnected s
    \<and> walletProvider (fst (handleSignMessage enc b58 io s)) = walletProvider s
    \<and> \<not> isLoading (fst (handleSignMessage enc b58 io s))
    \<and> snd (handleSignMessage enc b58 io s)
        = SignMessage (enc (challenge a (now io)))
          # (if has_disconnect p then [ProviderDisconnect] else [])
    \<and> (isConnected s \<and> \<not> isSigned s \<longrightarrow>
          phase_of (fst (handleSignMessage enc b58 io s)) = ConnectedUnauthenticated))
 \<and> (walletProvider t = Some q \<and> address t = Some c \<and> c \<noteq> [] \<longrightarrow>
      localStorage (fst (handleSignMessage_simple enc stamp SignThrows t)) = localStorage t
    \<and> isSigned (fst (handleSignMessage_simple enc stamp SignThrows t)) = isSigned t
    \<and> address (fst (handleSignMessage_simple enc stamp SignThrows t)) = address t
    \<and> isConnected (fst (handleSignMessage_simple enc stamp SignThrows t)) = isConnected t
    \<and> walletProvider (fst (handleSignMessage_simple enc stamp SignThrows t)) = walletProvider t
    \<and> \<not> isLoading (fst (handleSignMessage_simple enc stamp SignThrows t))
    \<and> snd (handleSignMessage_simple enc stamp SignThrows t)
        = SignMessage (enc (challenge c stamp))
          # (if has_disconnect q then [ProviderDisconnect] else [])
    \<and> (isConnected t \<and> \<not> isSigned t \<longrightarrow>
          phase_of (fst (handleSignMessage_simple enc stamp SignThrows t))
            = ConnectedUnauthenticated))"
  by (simp add: sign_defs handleSignMessage_simple_def phase_of_def)

theorem sign_rejected_witness:
  "walletProvider unsigned_state = Some (Provider True)
 \<and> address unsigned_state = Some ''abc1'' \<and> ''abc1'' \<noteq> []
 \<and> isConnected unsigned_state \<and> \<not> isSigned unsigned_state
 \<and> snd (handleSignMessage sample_encode sample_bs58
      \<lparr>now = stamp0, signed = SignThrows, verified = VerifyRejected\<rparr> unsigned_state)
     = [SignMessage (sample_encode (challenge ''abc1'' stamp0)), ProviderDisconnect]
 \<and> phase_of (fst (handleSignMessage sample_encode sample_bs58
      \<lparr>now = stamp0, signed = SignThrows, verified = VerifyRejected\<rparr> unsigned_state))
     = ConnectedUnauthenticated
 \<and> walletProvider (mount_simple Map.empty (Some ''abc1'') True (Some (Provider False)))
     = Some (Provider False)
 \<and> address (mount_simple Map.empty (Some ''abc1'') True (Some (Provider False))) = Some ''abc1''
 \<and> isConnected (mount_simple Map.empty (Some ''abc1'') True (Some (Provider False)))
 \<and> \<not> isSigned (mount_simple Map.empty (Some ''abc1'') True (Some (Provider False)))
 \<and> snd (handleSignMessage_simple sample_encode stamp0 SignThrows
      (mount_simple Map.empty (Some ''abc1'') True (Some (Provider False))))
     = [SignMessage (sample_encode (challenge ''abc1'' stamp0))]
 \<and> phase_of (fst (handleSignMessage_simple sample_encode stamp0 SignThrows
      (mount_simple Map.empty (Some ''abc1'') True (Some (Provider False)))))
     = ConnectedUnauthenticated"
proof -
  let ?t = "mount_simple Map.empty (Some ''abc1'') True (Some (Provider False))"
  have h: "walletProvider ?t = Some (Provider False) \<and> address ?t = Some ''abc1''
      \<and> isConnected ?t \<and> \<not> isSigned ?t"
    by (simp add: mount_simple_def)
  from sign_rejected
         [of unsigned_state "Provider True" "''abc1''"
             "\<lparr>now = stamp0, signed = SignThrows, verified = VerifyRejected\<rparr>"
             sample_encode sample_bs58 ?t "Provider False" "''abc1''" stamp0]
    h
  show ?thesis by (simp add: unsigned_state_fields)
qed

text \<open>
  C9. In every signing attempt the challenge is the fixed text with the connected
  address after \<open>Wallet: \<close> and the value of \<open>toISOString\<close> after \<open>Timestamp: \<close>; the
  first call asks the wallet to sign the bytes that \<open>TextEncoder\<close> gives for exactly
  that message; and when the wallet returns a signature, the next call posts to the
  verify endpoint the connected address, that message and what \<open>bs58.encode\<close> gives
  for the signature bytes.
\<close>

theorem challenge_signed_and_posted:
  assumes "walletProvider s = Some p" and "address s = Some a" and "a \<noteq> []"
  shows "challenge a (now io)
           = ''Sign this message to authenticate with Solana Wallet Connect.''
             @ [newline, newline] @ ''Wallet: '' @ a @ [newline] @ ''Timestamp: '' @ now io
       \<and> take 1 (snd (handleSignMessage enc b58 io s))
            = [SignMessage (enc (challenge a (now io)))]
       \<and> (signed io = SignReturns (Some sg) \<longrightarrow>
            take 2 (snd (handleSignMessage enc b58 io s))
              = [SignMessage (enc (challenge a (now io))),
                 PostVerify \<lparr>body_walletAddress = a, body_message = challenge a (now io),
                             body_signature = b58 sg\<rparr>])"
  using assms
  by (auto simp: sign_defs challenge_def split: sign_reply.splits option.splits verify_reply.splits)

theorem challenge_signed_and_posted_witness:
  "walletProvider unsigned_state = Some (Provider True)
 \<and> address unsigned_state = Some ''abc1'' \<and> ''abc1'' \<noteq> []
 \<and> take 2 (snd (handleSignMessage sample_encode sample_bs58
      \<lparr>now = stamp0, signed = SignReturns (Some [1, 2]), verified = VerifyData reply_ok\<rparr>
      unsigned_state))
     = [SignMessage (sample_encode (challenge ''abc1'' stamp0)),
        PostVerify \<lparr>body_walletAddress = ''abc1'', body_message = challenge ''abc1'' stamp0,
                    body_signature = sample_bs58 [1, 2]\<rparr>]"
proof -
  have h: "''abc1'' \<noteq> []" by simp
  from challenge_signed_and_posted
         [OF unsigned_state_fields(9) unsigned_state_fields(4) h,
          where io = "\<lparr>now = stamp0, signed = SignReturns (Some [1, 2]),
                        verified = VerifyData reply_ok\<rparr>"
            and enc = sample_encode and sg = "[1, 2]" and ?b58.0 = sample_bs58]
  show ?thesis by (simp add: unsigned_state_fields)
qed

subsection \<open>Revalidation of a stored token\<close>

text \<open>
  C6. When the fast path runs (a token is stored, the wallet is connected with an
  address, the latch is clear) and the me endpoint answers with a response that is not
  OK, or with a record whose wallet address differs from the connected address, the
  token is removed from the store, the token in memory, the signed flag and the user
  record are cleared, and the component is in \<open>ConnectedUnauthenticated\<close>; the signing
  effect then starts the signing protocol when a provider is there.
\<close>

theorem verifySession_stale_credential:
  assumes "sessionStorage s ''authToken'' = Some t" and "t \<noteq> []"
    and "isConnected s" and "address s = Some a" and "a \<noteq> []"
    and "\<not> userDisconnectedRef s"
    and "r = MeResponse False b
         \<or> r = MeResponse True (MeData u) \<and> toLowerCase (walletAddress u) \<noteq> toLowerCase a"
  shows "sessionStorage (fst (verifySession_effect r s)) ''authToken'' = None
       \<and> authToken (fst (verifySession_effect r s)) = None
       \<and> \<not> isSigned (fst (verifySession_effect r s))
       \<and> user (fst (verifySession_effect r s)) = None
       \<and> snd (verifySession_effect r s) = [GetMe t]
       \<and> (\<not> isLoading s \<longrightarrow> phase_of (fst (verifySession_effect r s)) = ConnectedUnauthenticated)
       \<and> (walletProvider s \<noteq> None \<longrightarrow>
            autoSign_effect enc b58 io (fst (verifySession_effect r s))
              = handleSignMessage enc b58 io (fst (verifySession_effect r s)))"
  using assms by (auto simp: guard_defs phase_of_def autoSign_effect_def)

theorem verifySession_stale_credential_witness:
  "sessionStorage authenticated_state ''authToken'' = Some ''T'' \<and> ''T'' \<noteq> []
 \<and> isConnected authenticated_state \<and> address authenticated_state = Some ''abc1''
 \<and> ''abc1'' \<noteq> [] \<and> \<not> userDisconnectedRef authenticated_state
 \<and> toLowerCase (walletAddress userZ) \<noteq> toLowerCase ''abc1''
 \<and> \<not> isLoading authenticated_state \<and> walletProvider authenticated_state \<noteq> None
 \<and> user authenticated_state = Some userX
 \<and> sessionStorage (fst (verifySession_effect (MeResponse True (MeData userZ))
      authenticated_state)) ''authToken'' = None
 \<and> user (fst (verifySession_effect (MeResponse True (MeData userZ)) authenticated_state)) = None
 \<and> phase_of (fst (verifySession_effect (MeResponse True (MeData userZ)) authenticated_state))
     = ConnectedUnauthenticated"
proof -
  have h2: "''T'' \<noteq> []" and h5: "''abc1'' \<noteq> []" by simp_all
  have m: "toLowerCase (walletAddress userZ) \<noteq> toLowerCase ''abc1''"
    by (simp add: userZ_def lower_samples)
  then have h7: "MeResponse True (MeData userZ) = MeResponse False Unreadable
       \<or> MeResponse True (MeData userZ) = MeResponse True (MeData userZ)
          \<and> toLowerCase (walletAddress userZ) \<noteq> toLowerCase ''abc1''"
    by simp
  from verifySession_stale_credential
         [OF authenticated_state_fields(1) h2 authenticated_state_fields(3,4) h5
             authenticated_state_fields(5) h7]
    m
  show ?thesis by (simp add: authenticated_state_fields)
qed

text \<open>
  C10. When the fast path runs and the request to the me endpoint throws, the token is
  removed from the store and the token in memory and the signed flag are cleared, but
  the user record in memory is left as it was; the same when the body of an OK
  response cannot be read. A response that is not OK clears the user record as well.
\<close>

theorem verifySession_throw_keeps_user:
  assumes "sessionStorage s ''authToken'' = Some t" and "t \<noteq> []"
    and "isConnected s" and "address s = Some a" and "a \<noteq> []"
    and "\<not> userDisconnectedRef s"
  shows "sessionStorage (fst (verifySession_effect MeRejected s)) ''authToken'' = None
       \<and> authToken (fst (verifySession_effect MeRejected s)) = None
       \<and> \<not> isSigned (fst (verifySession_effect MeRejected s))
       \<and> user (fst (verifySession_effect MeRejected s)) = user s
       \<and> user (fst (verifySession_effect (MeResponse True Unreadable) s)) = user s
       \<and> user (fst (verifySession_effect (MeResponse False b) s)) = None"
  using assms by (simp add: guard_defs)

theorem verifySession_throw_keeps_user_witness:
  "sessionStorage authenticated_state ''authToken'' = Some ''T'' \<and> ''T'' \<noteq> []
 \<and> isConnected authenticated_state \<and> address authenticated_state = Some ''abc1''
 \<and> ''abc1'' \<noteq> [] \<and> \<not> userDisconnectedRef authenticated_state
 \<and> sessionStorage (fst (verifySession_effect MeRejected authenticated_state)) ''authToken'' = None
 \<and> \<not> isSigned (fst (verifySession_effect MeRejected authenticated_state))
 \<and> user (fst (verifySession_effect MeRejected authenticated_state)) = Some userX
 \<and> user (fst (verifySession_effect (MeResponse False Unreadable) authenticated_state)) = None"
proof -
  have h2: "''T'' \<noteq> []" and h5: "''abc1'' \<noteq> []" by simp_all
  from verifySession_throw_keeps_user
         [OF authenticated_state_fields(1) h2 authenticated_state_fields(3,4) h5
             authenticated_state_fields(5), of Unreadable]
  show ?thesis by (simp add: authenticated_state_fields)
qed

subsection \<open>A change of the address while authenticated\<close>

text \<open>
  C7. In every authenticated state in which the connected address differs, up to the
  case of letters, from the wallet address of the user record, the address check
  removes the token from the store and clears the user record, the signed flag, the
  token in memory and the balance; the component is then in
  \<open>ConnectedUnauthenticated\<close>.
\<close>

theorem drift_purges:
  assumes "phase_of s = Authenticated" and "address s = Some a" and "a \<noteq> []"
    and "user s = Some u" and "toLowerCase a \<noteq> toLowerCase (walletAddress u)"
  shows "sessionStorage (drift_effect s) ''authToken'' = None
       \<and> user (drift_effect s) = None
       \<and> \<not> isSigned (drift_effect s)
       \<and> balance (drift_effect s) = None
       \<and> authToken (drift_effect s) = None
       \<and> phase_of (drift_effect s) = ConnectedUnauthenticated"
  using assms by (auto simp: drift_effect_def phase_of_def split: if_splits)

theorem drift_purges_witness:
  "phase_of (accountChanged (Some ''zzz9'') True (Some (Provider True))
      (fetchBalance_effect (BalanceOk 5) authenticated_state)) = Authenticated
 \<and> address (accountChanged (Some ''zzz9'') True (Some (Provider True))
      (fetchBalance_effect (BalanceOk 5) authenticated_state)) = Some ''zzz9''
 \<and> ''zzz9'' \<noteq> []
 \<and> user (accountChanged (Some ''zzz9'') True (Some (Provider True))
      (fetchBalance_effect (BalanceOk 5) authenticated_state)) = Some userX
 \<and> toLowerCase ''zzz9'' \<noteq> toLowerCase (walletAddress userX)
 \<and> balance (accountChanged (Some ''zzz9'') True (Some (Provider True))
      (fetchBalance_effect (BalanceOk 5) authenticated_state)) \<noteq> None
 \<and> sessionStorage (accountChanged (Some ''zzz9'') True (Some (Provider True))
      (fetchBalance_effect (BalanceOk 5) authenticated_state)) ''authToken'' = Some ''T''
 \<and> sessionStorage (drift_effect (accountChanged (Some ''zzz9'') True (Some (Provider True))
      (fetchBalance_effect (BalanceOk 5) authenticated_state))) ''authToken'' = None
 \<and> balance (drift_effect (accountChanged (Some ''zzz9'') True (Some (Provider True))
      (fetchBalance_effect (BalanceOk 5) authenticated_state))) = None
 \<and> phase_of (drift_effect (accountChanged (Some ''zzz9'') True (Some (Provider True))
      (fetchBalance_effect (BalanceOk 5) authenticated_state))) = ConnectedUnauthenticated"
proof -
  let ?s = "accountChanged (Some ''zzz9'') True (Some (Provider True))
      (fetchBalance_effect (BalanceOk 5) authenticated_state)"
  have f: "isConnected ?s \<and> isSigned ?s \<and> \<not> isLoading ?s \<and> address ?s = Some ''zzz9''
      \<and> user ?s = Some userX \<and> balance ?s \<noteq> None
      \<and> sessionStorage ?s ''authToken'' = Some ''T''"
    by (simp add: accountChanged_def fetchBalance_effect_def authenticated_state_fields)
  have h1: "phase_of ?s = Authenticated"
    using f by (simp add: phase_of_def)
  have h3: "''zzz9'' \<noteq> []" by simp
  have h5: "toLowerCase ''zzz9'' \<noteq> toLowerCase (walletAddress userX)"
    by (simp add: userX_def lower_samples)
  from f have h2: "address ?s = Some ''zzz9''" and h4: "user ?s = Some userX" by simp_all
  from drift_purges [OF h1 h2 h3 h4 h5] f h1 h5
  show ?thesis by simp
qed

end
